theory Spec2Isabelle
  imports Main
begin

section \<open>The \<open>scw init\<close> command (internal/namespaces/init/init.go)\<close>

text \<open>
  The file init.go holds the command's two closures (\<open>PreValidateFunc\<close>, \<open>Run\<close>) and the
  helpers \<open>promptSecretKey\<close>, \<open>getOrganizationID\<close> and \<open>promptOrganizationID\<close>. Everything
  they call lives in other packages: the terminal (package interactive), the Account
  Service (package account), the config store and the zone functions (package scw) and the
  shape predicates (package validation).

  The embedding passes the state of these collaborators explicitly, in a record
  \<open>world\<close>: for each collaborator the outcomes of its future calls, in order, the config
  file, and the trace of the calls made so far. A Go function returning \<open>(T, error)\<close> is a
  pair \<open>T \<times> error option\<close> (\<open>None\<close> is \<open>nil\<close>). A call whose collaborator has no outcome
  left never returns: the result is then \<open>None\<close>, next to the world reached.
\<close>

subsection \<open>Data\<close>

datatype error =
    Error string            \<comment> \<open>an error value with its message (\<open>fmt.Errorf\<close>, collaborators)\<close>
  | CliError error string   \<comment> \<open>\<open>core.CliError{Err, Details}\<close>\<close>

record InitArgs =
  SecretKey :: string
  Region :: string
  Zone :: string
  OrganizationID :: string
  SendUsage :: "bool option"

record LoginRequest =
  Email :: string
  Password :: string
  Description :: string
  TwoFactorToken :: string

record Token =
  TokenSecretKey :: string

record Profile =
  AccessKey :: "string option"
  ProfileSecretKey :: "string option"
  DefaultOrganizationID :: "string option"
  DefaultRegion :: "string option"
  DefaultZone :: "string option"

record Config =
  ConfigSendUsage :: bool
  ConfigProfile :: Profile

text \<open>The value of \<open>&scw.Config{}\<close>.\<close>

definition emptyProfile :: Profile where
  "emptyProfile = \<lparr>AccessKey = None, ProfileSecretKey = None, DefaultOrganizationID = None,
     DefaultRegion = None, DefaultZone = None\<rparr>"

definition emptyConfig :: Config where
  "emptyConfig = \<lparr>ConfigSendUsage = False, ConfigProfile = emptyProfile\<rparr>"

text \<open>The third results of \<open>Run\<close>: \<open>nil\<close>, the empty string and \<open>&core.SuccessResult{}\<close>.\<close>

datatype run_result = NilResult | EmptyString | SuccessResult

subsection \<open>Functions of the SDK that init.go calls\<close>

text \<open>
  Packages validation and scw belong to the SDK and are not among the sources. Their
  functions are parameters of the embedding: every theorem below that is stated for a
  \<open>deps\<close> \<open>K\<close> holds whatever these functions compute. \<open>USER\<close> and \<open>Hostname\<close> are the
  results of \<open>os.Getenv("USER")\<close> and of \<open>os.Hostname()\<close> (its error is dropped by the
  source).
\<close>

record deps =
  IsEmail :: "string \<Rightarrow> bool"
  IsUUID :: "string \<Rightarrow> bool"
  IsZone :: "string \<Rightarrow> bool"
  ParseZone :: "string \<Rightarrow> string \<times> error option"
  ZoneRegion :: "string \<Rightarrow> string \<times> error option"
  ValidateOrganizationID :: "string \<Rightarrow> error option"
  ActiveProfileError :: "Config \<Rightarrow> error option"
  USER :: string
  Hostname :: string

text \<open>
  Modelled from the spec: \<open>validation.IsSecretKey\<close>, which is not among the sources. The
  spec knows one "secret-key/UUID shape" (sections 3, 4.1 and 8): the shape of a secret
  key is the UUID shape.
\<close>

definition IsSecretKey :: "deps \<Rightarrow> string \<Rightarrow> bool" where
  "IsSecretKey K s = IsUUID K s"

subsection \<open>The world\<close>

datatype event =
    Output                                   \<comment> \<open>\<open>interactive.Printf\<close>, \<open>Println\<close>, \<open>PrintlnWithoutIndent\<close>\<close>
  | EvReadline
  | EvPromptPassword
  | EvPromptString string                    \<comment> \<open>the prompt\<close>
  | EvPromptStringWithConfig string string   \<comment> \<open>the prompt and the default value\<close>
  | EvPromptBool string bool                 \<comment> \<open>the prompt and the default value\<close>
  | EvLogin LoginRequest
  | EvGetOrganizationsIds string
  | EvGetAccessKey string
  | EvLoadConfig
  | EvSave Config
  | EvWarning error

record world =
  tty_lines :: "(error + string) list"
  tty_bools :: "(error + bool) list"
  login_responses :: "(error + Token \<times> bool) list"
  organizations_responses :: "(error + string list) list"
  access_key_responses :: "(error + string) list"
  save_responses :: "error option list"
  config_file :: "Config option"
  trace :: "event list"

definition emit :: "event \<Rightarrow> world \<Rightarrow> world" where
  "emit ev w = w\<lparr>trace := trace w @ [ev]\<rparr>"

subsection \<open>The terminal (package interactive)\<close>

text \<open>
  The prompting functions of package interactive are not among the sources; the spec
  describes them in section 6: "line prompt with validator + optional default,
  obscured-password prompt, yes/no prompt with default, plain output. All are blocking
  calls returning either a value or a cancellation/EOF error".

  \<open>tty_lines\<close> holds what the next reads of a line give: \<open>Inr s\<close> is the line \<open>s\<close>,
  \<open>Inl e\<close> is the cancellation or EOF error \<open>e\<close>. \<open>tty_bools\<close> holds what the next yes/no
  prompts give. With an error a prompt returns the zero value of its result type.
\<close>

text \<open>
  Modelled from the spec: the loop of a line prompt with a validator. Sections 4.2 and
  4.3: such a prompt prompts again until the validator accepts the value; a read that
  fails ends it with the error. \<open>dflt\<close> turns the line read into the value it stands for.
\<close>

fun read_valid ::
  "(string \<Rightarrow> string) \<Rightarrow> (string \<Rightarrow> error option) \<Rightarrow> (error + string) list \<Rightarrow>
     (string \<times> error option) option \<times> (error + string) list" where
  "read_valid dflt validate [] = (None, [])"
| "read_valid dflt validate (Inl e # rest) = (Some ('''', Some e), rest)"
| "read_valid dflt validate (Inr s # rest) =
     (if validate (dflt s) = None then (Some (dflt s, None), rest)
      else read_valid dflt validate rest)"

text \<open>
  Modelled from the spec: \<open>interactive.Readline\<close>, the line prompt with a validator and no
  default value (section 4.2, step 1). Its \<open>PromptFunc\<close> (lines 243--252) only colours
  the prompt and has no part in the result.
\<close>

definition Readline ::
  "(string \<Rightarrow> error option) \<Rightarrow> world \<Rightarrow> (string \<times> error option) option \<times> world" where
  "Readline validate w =
     (case read_valid (\<lambda>s. s) validate (tty_lines w) of
        (r, rest) \<Rightarrow> (r, emit EvReadline (w\<lparr>tty_lines := rest\<rparr>)))"

text \<open>The fields of \<open>interactive.PromptStringConfig\<close> that init.go sets.\<close>

record PromptStringConfig =
  Prompt :: string
  DefaultValue :: string
  DefaultValueDoc :: string
  ValidateFunc :: "string \<Rightarrow> error option"

text \<open>
  Modelled from the spec: \<open>interactive.PromptStringWithConfig\<close>, the line prompt with a
  validator and an optional default value (sections 4.3, 4.4 and 6). An empty line stands
  for the default value that the prompt offers.
\<close>

definition PromptStringWithConfig ::
  "PromptStringConfig \<Rightarrow> world \<Rightarrow> (string \<times> error option) option \<times> world" where
  "PromptStringWithConfig config w =
     (case read_valid (\<lambda>s. if s = [] then DefaultValue config else s) (ValidateFunc config)
             (tty_lines w) of
        (r, rest) \<Rightarrow>
          (r, emit (EvPromptStringWithConfig (Prompt config) (DefaultValue config))
                (w\<lparr>tty_lines := rest\<rparr>)))"

text \<open>
  Modelled from the spec: \<open>interactive.PromptString\<close>, a line prompt without validator
  (section 4.2: "prompt for a one-time code").
\<close>

definition PromptString :: "string \<Rightarrow> world \<Rightarrow> (string \<times> error option) option \<times> world" where
  "PromptString prompt w =
     (case read_valid (\<lambda>s. s) (\<lambda>s. None) (tty_lines w) of
        (r, rest) \<Rightarrow> (r, emit (EvPromptString prompt) (w\<lparr>tty_lines := rest\<rparr>)))"

text \<open>
  Modelled from the spec: \<open>interactive.PromptPassword\<close>, the obscured-password prompt
  (section 6); what is obscured is the echo, the value is the line.
\<close>

definition PromptPassword :: "world \<Rightarrow> (string \<times> error option) option \<times> world" where
  "PromptPassword w =
     (case read_valid (\<lambda>s. s) (\<lambda>s. None) (tty_lines w) of
        (r, rest) \<Rightarrow> (r, emit EvPromptPassword (w\<lparr>tty_lines := rest\<rparr>)))"

text \<open>
  Modelled from the spec: \<open>interactive.PromptBoolWithConfig\<close>, the yes/no prompt with a
  default (section 6). The outcome is the answer given, the default taken into account.
\<close>

definition PromptBoolWithConfig ::
  "string \<Rightarrow> bool \<Rightarrow> world \<Rightarrow> (bool \<times> error option) option \<times> world" where
  "PromptBoolWithConfig prompt dflt w =
     (case tty_bools w of
        [] \<Rightarrow> (None, emit (EvPromptBool prompt dflt) w)
      | Inl e # rest \<Rightarrow>
          (Some (False, Some e), emit (EvPromptBool prompt dflt) (w\<lparr>tty_bools := rest\<rparr>))
      | Inr b # rest \<Rightarrow>
          (Some (b, None), emit (EvPromptBool prompt dflt) (w\<lparr>tty_bools := rest\<rparr>)))"

subsection \<open>The Account Service (package account)\<close>

text \<open>
  Package account is not among the sources; the spec gives its three calls in section 6.
  A call that fails returns its error and zero values.
\<close>

text \<open>
  Modelled from the spec: \<open>account.Login\<close>. Section 6: "login(email, password,
  description, optional 2FAcode) -> (secretKey, twoFactorRequired, err)".
\<close>

definition Login ::
  "LoginRequest \<Rightarrow> world \<Rightarrow> (Token \<times> bool \<times> error option) option \<times> world" where
  "Login loginReq w =
     (case login_responses w of
        [] \<Rightarrow> (None, emit (EvLogin loginReq) w)
      | Inl e # rest \<Rightarrow>
          (Some (\<lparr>TokenSecretKey = ''''\<rparr>, False, Some e),
           emit (EvLogin loginReq) (w\<lparr>login_responses := rest\<rparr>))
      | Inr (t, twoFactorRequired) # rest \<Rightarrow>
          (Some (t, twoFactorRequired, None),
           emit (EvLogin loginReq) (w\<lparr>login_responses := rest\<rparr>)))"

text \<open>
  Modelled from the spec: \<open>account.GetOrganizationsIds\<close>. Section 6:
  "listOrganizationIDs(secretKey) -> (ids []string, err)"; section 4.4: a list that is
  unavailable is an empty list.
\<close>

definition GetOrganizationsIds ::
  "string \<Rightarrow> world \<Rightarrow> (string list \<times> error option) option \<times> world" where
  "GetOrganizationsIds secretKey w =
     (case organizations_responses w of
        [] \<Rightarrow> (None, emit (EvGetOrganizationsIds secretKey) w)
      | Inl e # rest \<Rightarrow>
          (Some ([], Some e),
           emit (EvGetOrganizationsIds secretKey) (w\<lparr>organizations_responses := rest\<rparr>))
      | Inr ids # rest \<Rightarrow>
          (Some (ids, None),
           emit (EvGetOrganizationsIds secretKey) (w\<lparr>organizations_responses := rest\<rparr>)))"

text \<open>
  Modelled from the spec: \<open>account.GetAccessKey\<close>. Section 6: "getAccessKey(secretKey) ->
  (accessKey string, err)".
\<close>

definition GetAccessKey ::
  "string \<Rightarrow> world \<Rightarrow> (string \<times> error option) option \<times> world" where
  "GetAccessKey secretKey w =
     (case access_key_responses w of
        [] \<Rightarrow> (None, emit (EvGetAccessKey secretKey) w)
      | Inl e # rest \<Rightarrow>
          (Some ('''', Some e),
           emit (EvGetAccessKey secretKey) (w\<lparr>access_key_responses := rest\<rparr>))
      | Inr k # rest \<Rightarrow>
          (Some (k, None),
           emit (EvGetAccessKey secretKey) (w\<lparr>access_key_responses := rest\<rparr>)))"

subsection \<open>The config store (package scw)\<close>

text \<open>
  Modelled from the spec: \<open>scw.LoadConfig\<close>, which is not among the sources. Section 6:
  "load() -> (record, err-if-absent)". The source reads of the error only whether it is
  \<open>nil\<close>.
\<close>

definition LoadConfig :: "world \<Rightarrow> (Config \<times> error option) \<times> world" where
  "LoadConfig w =
     (case config_file w of
        None \<Rightarrow> ((emptyConfig, Some (Error ''cannot read config file'')), emit EvLoadConfig w)
      | Some c \<Rightarrow> ((c, None), emit EvLoadConfig w))"

text \<open>
  Modelled from the spec: \<open>Config.Save\<close>, which is not among the sources. Section 6:
  "save(record) -> err". A save that succeeds replaces the config file, one that fails
  leaves it as it was.
\<close>

definition Save :: "Config \<Rightarrow> world \<Rightarrow> error option option \<times> world" where
  "Save config w =
     (case save_responses w of
        [] \<Rightarrow> (None, emit (EvSave config) w)
      | Some e # rest \<Rightarrow> (Some (Some e), emit (EvSave config) (w\<lparr>save_responses := rest\<rparr>))
      | None # rest \<Rightarrow>
          (Some None,
           emit (EvSave config) (w\<lparr>save_responses := rest, config_file := Some config\<rparr>)))"

text \<open>
  Modelled from the spec: \<open>Config.GetActiveProfile\<close>, which is not among the sources.
  Section 3: "exactly one profile is active at a time for this flow's purposes"; the
  record holds that profile. Whether looking it up fails is the parameter
  \<open>ActiveProfileError\<close>.
\<close>

definition GetActiveProfile :: "deps \<Rightarrow> Config \<Rightarrow> Profile \<times> error option" where
  "GetActiveProfile K config =
     (case ActiveProfileError K config of
        Some e \<Rightarrow> (emptyProfile, Some e)
      | None \<Rightarrow> (ConfigProfile config, None))"

subsection \<open>promptSecretKey\<close>

text \<open>The validator that \<open>promptSecretKey\<close> gives to \<open>Readline\<close> (lines 253--258).\<close>

definition secretKeyValidateFunc :: "deps \<Rightarrow> string \<Rightarrow> error option" where
  "secretKeyValidateFunc K s =
     (if IsEmail K s \<or> IsSecretKey K s then None
      else Some (Error ''invalid email or secret-key''))"

text \<open>
  The guards of the \<open>switch\<close> of lines 264--298, in the order of the source: the first
  case whose guard holds is taken.
\<close>

datatype switch_case = CaseEmail | CaseUUID | CaseDefault

definition switchCase :: "deps \<Rightarrow> string \<Rightarrow> switch_case" where
  "switchCase K UUIDOrEmail =
     (if IsEmail K UUIDOrEmail then CaseEmail
      else if IsUUID K UUIDOrEmail then CaseUUID
      else CaseDefault)"

lemma PromptString_login_responses:
  "login_responses (snd (PromptString p w)) = login_responses w"
  by (simp add: PromptString_def emit_def split: prod.splits)

lemma Login_login_responses:
  "Login r w = (Some x, w') \<Longrightarrow> length (login_responses w') < length (login_responses w)"
  by (auto simp: Login_def emit_def split: list.splits sum.splits)

text \<open>
  The loop of lines 279--291. Every turn takes one response of the Account Service, so the
  loop is defined by recursion on the responses left; when none is left the login call
  does not return and neither does the loop.
\<close>

function loginLoop ::
  "LoginRequest \<Rightarrow> world \<Rightarrow> (string \<times> error option) option \<times> world" where
  "loginLoop loginReq w =
     (case Login loginReq w of
        (None, w1) \<Rightarrow> (None, w1)
      | (Some (t, twoFactorRequired, err), w1) \<Rightarrow>
          if err \<noteq> None then (Some ('''', err), w1)
          else if \<not> twoFactorRequired then (Some (TokenSecretKey t, None), w1)
          else (case PromptString ''Enter your 2FA code'' w1 of
                  (None, w2) \<Rightarrow> (None, w2)
                | (Some (code, err2), w2) \<Rightarrow>
                    if err2 \<noteq> None then (Some ('''', err2), w2)
                    else loginLoop (loginReq\<lparr>TwoFactorToken := code\<rparr>) w2))"
  by pat_completeness auto
termination
proof (relation "measure (\<lambda>(r, w). length (login_responses w))")
  show "wf (measure (\<lambda>(r, w). length (login_responses w)))"
    by simp
next
  fix loginReq :: LoginRequest and w :: world and x w1 y p w2 code
  assume l: "(x, w1) = Login loginReq w" "x = Some y"
    and p: "(p, w2) = PromptString ''Enter your 2FA code'' w1"
  from l have "length (login_responses w1) < length (login_responses w)"
    using Login_login_responses [of loginReq w y w1] by simp
  moreover from p have "login_responses w2 = login_responses w1"
    using PromptString_login_responses [of "''Enter your 2FA code''" w1] by (metis snd_conv)
  ultimately show
    "((loginReq\<lparr>TwoFactorToken := code\<rparr>, w2), loginReq, w)
       \<in> measure (\<lambda>(r, w). length (login_responses w))"
    by simp
qed

declare loginLoop.simps [simp del]

definition promptSecretKey ::
  "deps \<Rightarrow> world \<Rightarrow> (string \<times> error option) option \<times> world" where
  "promptSecretKey K w =
     (case Readline (secretKeyValidateFunc K) w of
        (None, w1) \<Rightarrow> (None, w1)
      | (Some (UUIDOrEmail, err), w1) \<Rightarrow>
          if err \<noteq> None then (Some ('''', err), w1)
          else (case switchCase K UUIDOrEmail of
                  CaseEmail \<Rightarrow>
                    (case PromptPassword w1 of
                       (None, w2) \<Rightarrow> (None, w2)
                     | (Some (password, err), w2) \<Rightarrow>
                         if err \<noteq> None then (Some ('''', err), w2)
                         else loginLoop
                                \<lparr>Email = UUIDOrEmail, Password = password,
                                 Description = ''scw-cli '' @ USER K @ ''@'' @ Hostname K,
                                 TwoFactorToken = ''''\<rparr> w2)
                | CaseUUID \<Rightarrow> (Some (UUIDOrEmail, None), w1)
                | CaseDefault \<Rightarrow>
                    (Some ('''', Some (Error (''invalid email or secret-key: '' @ [CHR 0x27] @
                                               UUIDOrEmail @ [CHR 0x27]))), w1)))"

subsection \<open>getOrganizationID and promptOrganizationID\<close>

definition promptOrganizationID ::
  "deps \<Rightarrow> string list \<Rightarrow> world \<Rightarrow> (string \<times> error option) option \<times> world" where
  "promptOrganizationID K IDs w =
     (let config = \<lparr>Prompt = ''Enter your Organization ID'', DefaultValue = '''',
                     DefaultValueDoc = '''', ValidateFunc = ValidateOrganizationID K\<rparr>;
          config = (if length IDs > 0
                    then config\<lparr>DefaultValue := IDs ! 0, DefaultValueDoc := IDs ! 0\<rparr>
                    else config)
      in case PromptStringWithConfig config w of
           (None, w1) \<Rightarrow> (None, w1)
         | (Some (ID, err), w1) \<Rightarrow>
             if err \<noteq> None then (Some ('''', err), w1) else (Some (ID, None), w1))"

definition getOrganizationID ::
  "deps \<Rightarrow> string \<Rightarrow> world \<Rightarrow> (string \<times> error option) option \<times> world" where
  "getOrganizationID K secretKey w =
     (case GetOrganizationsIds secretKey w of
        (None, w1) \<Rightarrow> (None, w1)
      | (Some (IDs, err), w1) \<Rightarrow>
          (case err of
             Some e \<Rightarrow> promptOrganizationID K IDs (emit (EvWarning e) w1)
           | None \<Rightarrow>
               if length IDs \<noteq> 1 then promptOrganizationID K IDs w1
               else (Some (IDs ! 0, None), w1)))"

subsection \<open>PreValidateFunc\<close>

text \<open>
  The closure of lines 94--191 works on \<open>args\<close> through a pointer, so each block below
  returns the arguments as it leaves them, next to the error that the closure returns
  there (\<open>None\<close>: the closure goes on). The blocks are the statements of the closure in
  their order; \<open>andThen\<close> runs the next one when nothing was returned yet. The debug log
  of the zone validator is left out.
\<close>

type_synonym step = "InitArgs \<Rightarrow> world \<Rightarrow> (InitArgs \<times> error option) option \<times> world"

definition andThen :: "(InitArgs \<times> error option) option \<times> world \<Rightarrow> step \<Rightarrow>
    (InitArgs \<times> error option) option \<times> world" where
  "andThen r f = (case r of (Some (args, None), w) \<Rightarrow> f args w | _ \<Rightarrow> r)"

text \<open>Lines 97--128: the banner, and the question asked when a config exists.\<close>

definition preValidateConfig :: step where
  "preValidateConfig args w =
     (case LoadConfig (emit Output w) of
        ((config, err), w1) \<Rightarrow>
          let newConfig = (err \<noteq> None)
          in if \<not> newConfig then
               (case PromptBoolWithConfig ''Do you want to override current config?'' True
                       (emit Output w1) of
                  (None, w2) \<Rightarrow> (None, w2)
                | (Some (overrideConfig, err), w2) \<Rightarrow>
                    if err \<noteq> None then (Some (args, err), w2)
                    else if \<not> overrideConfig
                    then (Some (args, Some (Error ''initialization cancelled'')), w2)
                    else (Some (args, None), w2))
             else (Some (args, None), w1))"

text \<open>Lines 131--136.\<close>

definition preValidateSecretKey :: "deps \<Rightarrow> step" where
  "preValidateSecretKey K args w =
     (if SecretKey args = '''' then
        (case promptSecretKey K w of
           (None, w1) \<Rightarrow> (None, w1)
         | (Some (secretKey, err), w1) \<Rightarrow> (Some (args\<lparr>SecretKey := secretKey\<rparr>, err), w1))
      else (Some (args, None), w))"

text \<open>
  Lines 137--154. The error that the prompt returns is assigned to \<open>err\<close> and overwritten
  by the result of \<open>scw.ParseZone\<close> before anything reads it.
\<close>

definition preValidateZone :: "deps \<Rightarrow> step" where
  "preValidateZone K args w =
     (if Zone args = '''' then
        (case PromptStringWithConfig
                \<lparr>Prompt = ''Select a zone'', DefaultValue = ''fr-par-1'',
                 DefaultValueDoc = ''fr-par-1'',
                 ValidateFunc =
                   (\<lambda>s. if \<not> IsZone K s then Some (Error ''invalid zone'') else None)\<rparr> w of
           (None, w1) \<Rightarrow> (None, w1)
         | (Some (zone, err), w1) \<Rightarrow>
             (case ParseZone K zone of
                (z, err) \<Rightarrow> (Some (args\<lparr>Zone := z\<rparr>, err), w1)))
      else (Some (args, None), w))"

text \<open>Lines 156--162.\<close>

definition preValidateRegion :: "deps \<Rightarrow> step" where
  "preValidateRegion K args w =
     (if Region args = '''' then
        (case ZoneRegion K (Zone args) of
           (region, err) \<Rightarrow> (Some (args\<lparr>Region := region\<rparr>, err), w))
      else (Some (args, None), w))"

text \<open>Lines 164--171.\<close>

definition preValidateOrganizationID :: "deps \<Rightarrow> step" where
  "preValidateOrganizationID K args w =
     (if OrganizationID args = '''' then
        (case getOrganizationID K (SecretKey args) w of
           (None, w1) \<Rightarrow> (None, w1)
         | (Some (ID, err), w1) \<Rightarrow> (Some (args\<lparr>OrganizationID := ID\<rparr>, err), w1))
      else (Some (args, None), w))"

text \<open>Lines 173--188.\<close>

definition preValidateSendUsage :: step where
  "preValidateSendUsage args w =
     (if SendUsage args = None then
        (case PromptBoolWithConfig ''Do you want to send usage statistics and diagnostics?''
                True (emit Output (emit Output w)) of
           (None, w1) \<Rightarrow> (None, w1)
         | (Some (sendUsage, err), w1) \<Rightarrow> (Some (args\<lparr>SendUsage := Some sendUsage\<rparr>, err), w1))
      else (Some (args, None), w))"

definition PreValidateFunc :: "deps \<Rightarrow> step" where
  "PreValidateFunc K args w =
     andThen (andThen (andThen (andThen (andThen
       (preValidateConfig args w)
       (preValidateSecretKey K))
       (preValidateZone K))
       (preValidateRegion K))
       (preValidateOrganizationID K))
       preValidateSendUsage"

subsection \<open>Run\<close>

text \<open>
  Lines 192--237. \<open>profile\<close> points into \<open>config\<close>: what is assigned to its fields is
  part of the config that the next \<open>Save\<close> writes.
\<close>

definition Run :: "deps \<Rightarrow> InitArgs \<Rightarrow> world \<Rightarrow> (run_result \<times> error option) option \<times> world" where
  "Run K args w =
     (case LoadConfig w of
        ((loaded, err), w1) \<Rightarrow>
          (let config = (if err \<noteq> None then emptyConfig else loaded);
               w2 = (if err \<noteq> None then emit Output w1 else w1);
               config = (case SendUsage args of
                           Some b \<Rightarrow> config\<lparr>ConfigSendUsage := b\<rparr>
                         | None \<Rightarrow> config)
           in (case GetActiveProfile K config of
                 (profile, err) \<Rightarrow>
                   (if err \<noteq> None then (Some (NilResult, err), w2)
                    else
                      (let profile = profile\<lparr>ProfileSecretKey := Some (SecretKey args),
                                       DefaultZone := Some (Zone args),
                                       DefaultRegion := Some (Region args),
                                       DefaultOrganizationID := Some (OrganizationID args)\<rparr>;
                           config = config\<lparr>ConfigProfile := profile\<rparr>
                       in (case Save config w2 of
                             (None, w3) \<Rightarrow> (None, w3)
                           | (Some err, w3) \<Rightarrow>
                               (if err \<noteq> None then (Some (NilResult, err), w3)
                                else
                                  (case GetAccessKey (SecretKey args) w3 of
                                     (None, w4) \<Rightarrow> (None, w4)
                                   | (Some (accessKey, err), w4) \<Rightarrow>
                                       (case err of
                                          Some e \<Rightarrow>
                                            (Some (EmptyString,
                                               Some (CliError e
                                                 ''Failed to retrieve Access Key for the given Secret Key.'')),
                                             emit Output w4)
                                        | None \<Rightarrow>
                                            (let profile = profile\<lparr>AccessKey := Some accessKey\<rparr>;
                                                 config = config\<lparr>ConfigProfile := profile\<rparr>
                                             in (case Save config w4 of
                                                   (None, w5) \<Rightarrow> (None, w5)
                                                 | (Some err, w5) \<Rightarrow>
                                                     (if err \<noteq> None
                                                      then (Some (NilResult, err), w5)
                                                      else (Some (SuccessResult, None), w5)))))))))))))"

subsection \<open>The SDK's functions as the spec has them\<close>

text \<open>
  The theorems stated for every \<open>deps\<close> depend on none of the definitions of this
  subsection; they are evaluated at the instance \<open>sdk\<close> defined here. Its shapes are
  patterns over character classes that the whole string has to match.
\<close>

datatype char_class = Hex | Lower | Digit19 | Lit char

definition in_class :: "char_class \<Rightarrow> char \<Rightarrow> bool" where
  "in_class k c =
     (case k of
        Hex \<Rightarrow> c \<in> set ''0123456789abcdefABCDEF''
      | Lower \<Rightarrow> c \<in> set ''abcdefghijklmnopqrstuvwxyz''
      | Digit19 \<Rightarrow> c \<in> set ''123456789''
      | Lit d \<Rightarrow> c = d)"

fun match_all :: "char_class list \<Rightarrow> string \<Rightarrow> bool" where
  "match_all [] s = (s = [])"
| "match_all (k # ks) [] = False"
| "match_all (k # ks) (c # cs) = (in_class k c \<and> match_all ks cs)"

definition uuid_pattern :: "char_class list" where
  "uuid_pattern =
     replicate 8 Hex @ [Lit CHR ''-''] @ replicate 4 Hex @ [Lit CHR ''-''] @
     replicate 4 Hex @ [Lit CHR ''-''] @ replicate 4 Hex @ [Lit CHR ''-''] @ replicate 12 Hex"

definition zone_pattern :: "char_class list" where
  "zone_pattern =
     [Lower, Lower, Lit CHR ''-'', Lower, Lower, Lower, Lit CHR ''-'', Digit19]"

text \<open>
  Modelled from the spec: \<open>validation.IsUUID\<close>, which is not among the sources. Sections 3
  and 4.1 name the "secret-key/UUID shape": the string is a UUID, hexadecimal digits in
  groups of 8, 4, 4, 4 and 12 with a hyphen between the groups, and nothing else.
\<close>

definition uuid_shape :: "string \<Rightarrow> bool" where
  "uuid_shape s = match_all uuid_pattern s"

text \<open>
  Modelled from the spec: \<open>validation.IsEmail\<close>, which is not among the sources. Section
  4.1 names the "email-address shape": an \<open>@\<close> with something before it and something
  after it, on one line.
\<close>

definition email_shape :: "string \<Rightarrow> bool" where
  "email_shape s = (CHR 0x0A \<notin> set s \<and> CHR ''@'' \<in> set (butlast (tl s)))"

text \<open>
  Modelled from the spec: the table of \<open>Zone.Region()\<close>, which is not among the sources.
  Section 8: the zone fr-par-1 has the region fr-par. The other two entries pair the
  zones and the regions that the command's \<open>ArgSpecs\<close> list (lines 78--85).
\<close>

definition zone_regions :: "(string \<times> string) list" where
  "zone_regions =
     [(''fr-par-1'', ''fr-par''), (''fr-par-2'', ''fr-par''), (''nl-ams-1'', ''nl-ams'')]"

text \<open>
  Modelled from the spec: \<open>Zone.Region()\<close> of the SDK, which is not among the sources.
  Section 4.3: the region is "derived deterministically from the resolved zone via a
  fixed zone->region mapping; if the zone has no known region, this is a hard error".
\<close>

definition known_region :: "string \<Rightarrow> string \<times> error option" where
  "known_region zone =
     (case map_of zone_regions zone of
        Some region \<Rightarrow> (region, None)
      | None \<Rightarrow> ('''', Some (Error ''unknown zone'')))"

text \<open>
  The instance: the two shapes above, a zone of two and three lower-case letters and a
  digit from 1 to 9, an organization ID of the UUID shape, and the mapping of the spec
  from zones to regions.
\<close>

definition sdk :: deps where
  "sdk =
     \<lparr>IsEmail = email_shape,
      IsUUID = uuid_shape,
      IsZone = match_all zone_pattern,
      ParseZone =
        (\<lambda>s. if match_all zone_pattern s then (s, None) else ('''', Some (Error ''bad zone format''))),
      ZoneRegion = known_region,
      ValidateOrganizationID =
        (\<lambda>s. if match_all uuid_pattern s then None else Some (Error ''invalid organization-id'')),
      ActiveProfileError = (\<lambda>c. None),
      USER = ''alice'',
      Hostname = ''laptop''\<rparr>"

text \<open>A world in which nothing has happened and no collaborator ever answers.\<close>

definition idle :: world where
  "idle =
     \<lparr>tty_lines = [], tty_bools = [], login_responses = [], organizations_responses = [],
      access_key_responses = [], save_responses = [], config_file = None, trace = []\<rparr>"

section \<open>Properties\<close>

subsection \<open>Prompts with a validator\<close>

lemma read_valid_accepted:
  "read_valid d v ls = (Some (x, None), rest) \<Longrightarrow> v x = None"
  by (induction d v ls rule: read_valid.induct) (auto split: if_splits)

lemma read_valid_rejected:
  "\<forall>b\<in>set bad. v (d b) \<noteq> None \<Longrightarrow>
     read_valid d v (map Inr bad @ rest) = read_valid d v rest"
  by (induction bad) auto

subsection \<open>Facts about the instance\<close>

lemma sdk_secret_key:
  "IsUUID sdk ''11111111-2222-3333-4444-555555555555'' \<and>
   \<not> IsEmail sdk ''11111111-2222-3333-4444-555555555555''"
  by code_simp

lemma sdk_description: "USER sdk = ''alice'' \<and> Hostname sdk = ''laptop''"
  by (simp add: sdk_def)

lemma sdk_hello: "\<not> IsEmail sdk ''hello'' \<and> \<not> IsUUID sdk ''hello''"
  by code_simp

lemma sdk_organization:
  "ValidateOrganizationID sdk ''aaaaaaaa-bbbb-cccc-dddd-eeeeeeeeeeee'' = None"
  by code_simp

subsection \<open>The secret key\<close>

text \<open>
  Claim C1. The line entered is an email, and the Account Service answers the first login
  with "two-factor required" and the second one without. Then \<open>promptSecretKey\<close> makes
  exactly two login calls, asks for the 2FA code once, between them, sends the code with
  the second call, and returns the secret key of the second response.
\<close>

theorem C1_two_factor_login:
  assumes "IsEmail K email"
    and "tty_lines w = Inr email # Inr password # Inr code # ls"
    and "login_responses w = Inr (t1, True) # Inr (t2, False) # rs"
  shows "promptSecretKey K w =
     (Some (TokenSecretKey t2, None),
      w\<lparr>tty_lines := ls, login_responses := rs,
        trace := trace w @
          [EvReadline, EvPromptPassword,
           EvLogin \<lparr>Email = email, Password = password,
                    Description = ''scw-cli '' @ USER K @ ''@'' @ Hostname K,
                    TwoFactorToken = ''''\<rparr>,
           EvPromptString ''Enter your 2FA code'',
           EvLogin \<lparr>Email = email, Password = password,
                    Description = ''scw-cli '' @ USER K @ ''@'' @ Hostname K,
                    TwoFactorToken = code\<rparr>]\<rparr>)"
  using assms
  by (simp add: promptSecretKey_def Readline_def secretKeyValidateFunc_def switchCase_def
      PromptPassword_def loginLoop.simps Login_def PromptString_def emit_def)

theorem C1_two_factor_login_witness:
  "IsEmail sdk ''alice@example.com'' \<and>
   promptSecretKey sdk
     (idle\<lparr>tty_lines := [Inr ''alice@example.com'', Inr ''pw'', Inr ''123456''],
        login_responses :=
          [Inr (\<lparr>TokenSecretKey = ''''\<rparr>, True),
           Inr (\<lparr>TokenSecretKey = ''11111111-2222-3333-4444-555555555555''\<rparr>, False)]\<rparr>) =
     (Some (''11111111-2222-3333-4444-555555555555'', None),
      idle\<lparr>trace :=
        [EvReadline, EvPromptPassword,
         EvLogin \<lparr>Email = ''alice@example.com'', Password = ''pw'',
                  Description = ''scw-cli alice@laptop'', TwoFactorToken = ''''\<rparr>,
         EvPromptString ''Enter your 2FA code'',
         EvLogin \<lparr>Email = ''alice@example.com'', Password = ''pw'',
                  Description = ''scw-cli alice@laptop'', TwoFactorToken = ''123456''\<rparr>]\<rparr>)"
proof -
  have email: "IsEmail sdk ''alice@example.com''"
    by (simp add: sdk_def email_shape_def)
  show ?thesis
    using email
      C1_two_factor_login [OF email,
        of "idle\<lparr>tty_lines := [Inr ''alice@example.com'', Inr ''pw'', Inr ''123456''],
              login_responses :=
                [Inr (\<lparr>TokenSecretKey = ''''\<rparr>, True),
                 Inr (\<lparr>TokenSecretKey = ''11111111-2222-3333-4444-555555555555''\<rparr>, False)]\<rparr>"
           "''pw''" "''123456''" "[]" "\<lparr>TokenSecretKey = ''''\<rparr>"
           "\<lparr>TokenSecretKey = ''11111111-2222-3333-4444-555555555555''\<rparr>" "[]"]
    by (simp add: idle_def sdk_def)
qed

text \<open>
  A UUID has no \<open>@\<close>: no string has both the UUID shape and the email shape, and the
  order of the first two cases of the switch decides nothing for these shapes.
\<close>

lemma match_all_classes:
  "match_all ks s \<Longrightarrow> c \<in> set s \<Longrightarrow> \<exists>k\<in>set ks. in_class k c"
  by (induction ks s rule: match_all.induct) auto

lemma uuid_shape_not_email:
  assumes "uuid_shape s"
  shows "\<not> email_shape s"
proof
  assume "email_shape s"
  then have "CHR ''@'' \<in> set (butlast (tl s))"
    by (simp add: email_shape_def)
  then have "CHR ''@'' \<in> set (tl s)"
    by (rule in_set_butlastD)
  then have "CHR ''@'' \<in> set s"
    by (cases s) simp_all
  with assms obtain k where "k \<in> set uuid_pattern" and "in_class k CHR ''@''"
    unfolding uuid_shape_def by (blast dest: match_all_classes)
  then show False
    by (auto simp add: uuid_pattern_def in_class_def)
qed

lemma promptSecretKey_uuid_case:
  assumes "IsUUID K s" and "\<not> IsEmail K s"
    and "\<forall>b\<in>set rejected. \<not> IsEmail K b \<and> \<not> IsUUID K b"
    and "tty_lines w = map Inr rejected @ Inr s # ls"
  shows "promptSecretKey K w =
     (Some (s, None), w\<lparr>tty_lines := ls, trace := trace w @ [EvReadline]\<rparr>)"
proof -
  have "read_valid (\<lambda>s. s) (secretKeyValidateFunc K) (tty_lines w) =
      read_valid (\<lambda>s. s) (secretKeyValidateFunc K) (Inr s # ls)"
    using assms(3,4) read_valid_rejected [of rejected "secretKeyValidateFunc K" "\<lambda>s. s"]
    by (simp add: secretKeyValidateFunc_def IsSecretKey_def)
  then show ?thesis
    using assms(1,2)
    by (simp add: promptSecretKey_def Readline_def secretKeyValidateFunc_def IsSecretKey_def
        switchCase_def emit_def)
qed

text \<open>
  Claim C5. A line of the UUID shape, entered after any number of lines that the
  validator rejects, is returned as it is; the only call made is the \<open>Readline\<close>: no
  password prompt, no login, and the responses of the Account Service are all still to
  come.
\<close>

theorem C5_uuid_literal:
  assumes "IsUUID sdk s"
    and "\<forall>b\<in>set rejected. \<not> IsEmail sdk b \<and> \<not> IsUUID sdk b"
    and "tty_lines w = map Inr rejected @ Inr s # ls"
  shows "promptSecretKey sdk w =
     (Some (s, None), w\<lparr>tty_lines := ls, trace := trace w @ [EvReadline]\<rparr>)"
proof -
  from assms(1) have "uuid_shape s"
    by (simp add: sdk_def)
  then have "\<not> email_shape s"
    by (rule uuid_shape_not_email)
  then have "\<not> IsEmail sdk s"
    by (simp add: sdk_def)
  with assms show ?thesis
    by (intro promptSecretKey_uuid_case)
qed

theorem C5_uuid_literal_witness:
  "IsUUID sdk ''11111111-2222-3333-4444-555555555555'' \<and>
   promptSecretKey sdk
     (idle\<lparr>tty_lines := [Inr ''hello'', Inr ''11111111-2222-3333-4444-555555555555'',
                           Inr ''fr-par-2''],
        login_responses := [Inl (Error ''not reached'')]\<rparr>) =
     (Some (''11111111-2222-3333-4444-555555555555'', None),
      idle\<lparr>tty_lines := [Inr ''fr-par-2''],
        login_responses := [Inl (Error ''not reached'')], trace := [EvReadline]\<rparr>)"
  using sdk_secret_key sdk_hello
    C5_uuid_literal [of "''11111111-2222-3333-4444-555555555555''" "[''hello'']"
      "idle\<lparr>tty_lines := [Inr ''hello'', Inr ''11111111-2222-3333-4444-555555555555'',
                            Inr ''fr-par-2''],
         login_responses := [Inl (Error ''not reached'')]\<rparr>"
      "[Inr ''fr-par-2'']"]
  by (simp add: idle_def)

text \<open>
  Claim C10. A line that \<open>Readline\<close> returns was accepted by the validator of lines
  253--258, so it has the email shape or the shape of a secret key, which is the UUID
  shape: the switch takes the email case or the UUID case, never the default case, and a
  line without the email shape has the UUID shape.
\<close>

theorem C10_default_case_unreachable:
  assumes "Readline (secretKeyValidateFunc K) w = (Some (s, None), w1)"
  shows "switchCase K s \<noteq> CaseDefault \<and> (\<not> IsEmail K s \<longrightarrow> IsUUID K s)"
proof -
  obtain rest where
    "read_valid (\<lambda>s. s) (secretKeyValidateFunc K) (tty_lines w) = (Some (s, None), rest)"
    using assms by (auto simp: Readline_def split: prod.splits)
  then have "secretKeyValidateFunc K s = None"
    by (rule read_valid_accepted)
  then have "IsEmail K s \<or> IsUUID K s"
    by (simp add: secretKeyValidateFunc_def IsSecretKey_def split: if_splits)
  then show ?thesis
    by (auto simp: switchCase_def)
qed

theorem C10_default_case_unreachable_witness:
  "Readline (secretKeyValidateFunc sdk)
     (idle\<lparr>tty_lines := [Inr ''hello'', Inr ''11111111-2222-3333-4444-555555555555'']\<rparr>) =
     (Some (''11111111-2222-3333-4444-555555555555'', None), idle\<lparr>trace := [EvReadline]\<rparr>) \<and>
   switchCase sdk ''11111111-2222-3333-4444-555555555555'' \<noteq> CaseDefault \<and>
   IsUUID sdk ''11111111-2222-3333-4444-555555555555''"
proof -
  have accepted: "Readline (secretKeyValidateFunc sdk)
     (idle\<lparr>tty_lines := [Inr ''hello'', Inr ''11111111-2222-3333-4444-555555555555'']\<rparr>) =
     (Some (''11111111-2222-3333-4444-555555555555'', None), idle\<lparr>trace := [EvReadline]\<rparr>)"
    by code_simp
  show ?thesis
    using accepted C10_default_case_unreachable [OF accepted] sdk_secret_key by simp
qed

subsection \<open>The organization ID\<close>

lemma promptOrganizationID_trace:
  "trace (snd (promptOrganizationID K IDs w)) =
     trace w @ [EvPromptStringWithConfig ''Enter your Organization ID''
                  (case IDs of [] \<Rightarrow> '''' | ID0 # _ \<Rightarrow> ID0)]"
  by (cases IDs)
     (simp_all add: promptOrganizationID_def PromptStringWithConfig_def emit_def
      split: prod.splits option.splits)

lemma promptOrganizationID_result:
  "tty_lines w = tty_lines w' \<Longrightarrow>
     fst (promptOrganizationID K IDs w) = fst (promptOrganizationID K IDs w')"
  by (cases IDs)
     (simp_all add: promptOrganizationID_def PromptStringWithConfig_def
      split: prod.splits option.splits)


lemma promptOrganizationID_entered:
  "tty_lines w = Inr ID # ls \<Longrightarrow> ID \<noteq> '''' \<Longrightarrow> ValidateOrganizationID K ID = None \<Longrightarrow>
     fst (promptOrganizationID K IDs w) = Some (ID, None)"
  by (cases IDs) (simp_all add: promptOrganizationID_def PromptStringWithConfig_def)


text \<open>
  Claim C6. When the query for the organizations fails, \<open>getOrganizationID\<close> returns what
  it returns when the query gives the empty list: it logs the error as a warning and
  prompts with no default value, where the empty list prompts with no default value and
  no warning. The error of the query is not returned: an organization ID that the
  validator accepts, entered at the prompt, is the result, with no error.
\<close>

theorem C6_query_error_falls_through:
  assumes "organizations_responses w = Inl e # rs"
  shows "fst (getOrganizationID K secretKey w) =
           fst (getOrganizationID K secretKey (w\<lparr>organizations_responses := Inr [] # rs\<rparr>)) \<and>
         trace (snd (getOrganizationID K secretKey w)) =
           trace w @ [EvGetOrganizationsIds secretKey, EvWarning e,
                      EvPromptStringWithConfig ''Enter your Organization ID'' ''''] \<and>
         trace (snd (getOrganizationID K secretKey
                  (w\<lparr>organizations_responses := Inr [] # rs\<rparr>))) =
           trace w @ [EvGetOrganizationsIds secretKey,
                      EvPromptStringWithConfig ''Enter your Organization ID'' ''''] \<and>
         (\<forall>ID ls. tty_lines w = Inr ID # ls \<longrightarrow> ID \<noteq> '''' \<longrightarrow>
            ValidateOrganizationID K ID = None \<longrightarrow>
            fst (getOrganizationID K secretKey w) = Some (ID, None))"
proof -
  let ?w1 = "emit (EvWarning e) (emit (EvGetOrganizationsIds secretKey)
               (w\<lparr>organizations_responses := rs\<rparr>))"
  let ?w2 = "emit (EvGetOrganizationsIds secretKey) (w\<lparr>organizations_responses := rs\<rparr>)"
  have failing: "getOrganizationID K secretKey w = promptOrganizationID K [] ?w1"
    using assms by (simp add: getOrganizationID_def GetOrganizationsIds_def)
  have empty: "getOrganizationID K secretKey (w\<lparr>organizations_responses := Inr [] # rs\<rparr>) =
      promptOrganizationID K [] ?w2"
    by (simp add: getOrganizationID_def GetOrganizationsIds_def emit_def)
  have "fst (promptOrganizationID K [] ?w1) = fst (promptOrganizationID K [] ?w2)"
    by (rule promptOrganizationID_result) (simp add: emit_def)
  moreover have "trace (snd (promptOrganizationID K [] ?w1)) =
      trace w @ [EvGetOrganizationsIds secretKey, EvWarning e,
                 EvPromptStringWithConfig ''Enter your Organization ID'' '''']"
    by (simp add: promptOrganizationID_trace emit_def)
  moreover have "trace (snd (promptOrganizationID K [] ?w2)) =
      trace w @ [EvGetOrganizationsIds secretKey,
                 EvPromptStringWithConfig ''Enter your Organization ID'' '''']"
    by (simp add: promptOrganizationID_trace emit_def)
  moreover have "fst (promptOrganizationID K [] ?w1) = Some (ID, None)"
    if "tty_lines w = Inr ID # ls" "ID \<noteq> ''''" "ValidateOrganizationID K ID = None" for ID ls
    using that by (intro promptOrganizationID_entered [where ls = ls]) (simp_all add: emit_def)
  ultimately show ?thesis
    unfolding failing empty by blast
qed

theorem C6_query_error_falls_through_witness:
  "fst (getOrganizationID sdk ''11111111-2222-3333-4444-555555555555''
     (idle\<lparr>organizations_responses := [Inl (Error ''timeout'')],
        tty_lines := [Inr ''aaaaaaaa-bbbb-cccc-dddd-eeeeeeeeeeee'']\<rparr>)) =
     Some (''aaaaaaaa-bbbb-cccc-dddd-eeeeeeeeeeee'', None) \<and>
   trace (snd (getOrganizationID sdk ''11111111-2222-3333-4444-555555555555''
     (idle\<lparr>organizations_responses := [Inl (Error ''timeout'')],
        tty_lines := [Inr ''aaaaaaaa-bbbb-cccc-dddd-eeeeeeeeeeee'']\<rparr>))) =
     [EvGetOrganizationsIds ''11111111-2222-3333-4444-555555555555'',
      EvWarning (Error ''timeout''),
      EvPromptStringWithConfig ''Enter your Organization ID'' '''']"
  (is "fst (getOrganizationID sdk ?key ?w) = _ \<and> _")
proof -
  have failing: "organizations_responses ?w = Inl (Error ''timeout'') # []"
    by (simp add: idle_def)
  have entered: "tty_lines ?w = Inr ''aaaaaaaa-bbbb-cccc-dddd-eeeeeeeeeeee'' # []"
    by (simp add: idle_def)
  note C6 = C6_query_error_falls_through [OF failing, of sdk ?key]
  from C6 have "trace (snd (getOrganizationID sdk ?key ?w)) =
      trace ?w @ [EvGetOrganizationsIds ?key, EvWarning (Error ''timeout''),
                  EvPromptStringWithConfig ''Enter your Organization ID'' '''']"
    by (elim conjE)
  moreover from C6 entered sdk_organization
  have "fst (getOrganizationID sdk ?key ?w) =
      Some (''aaaaaaaa-bbbb-cccc-dddd-eeeeeeeeeeee'', None)"
    by (elim conjE allE [where x = "''aaaaaaaa-bbbb-cccc-dddd-eeeeeeeeeeee''"]) simp
  ultimately show ?thesis
    by (simp add: idle_def)
qed



subsection \<open>PreValidateFunc\<close>

lemma sdk_no_zone: "ParseZone sdk '''' = ('''', Some (Error ''bad zone format''))"
  by (simp add: sdk_def zone_pattern_def)

lemma sdk_zone: "IsZone sdk ''fr-par-1'' \<and> ParseZone sdk ''fr-par-1'' = (''fr-par-1'', None)"
  by (simp add: sdk_def zone_pattern_def in_class_def)

lemma sdk_zone_region: "ZoneRegion sdk = known_region"
  by (simp add: sdk_def)

text \<open>
  Claim C8. A config file exists and the answer to the question is no: \<open>PreValidateFunc\<close>
  returns the error "initialization cancelled". All it has done is print, load the
  config and ask the question: no secret key, zone or organization is asked for, and the
  config file is as it was.
\<close>

theorem C8_override_declined:
  assumes "config_file w = Some c" and "tty_bools w = Inr False # bs"
  shows "PreValidateFunc K args w =
     (Some (args, Some (Error ''initialization cancelled'')),
      w\<lparr>tty_bools := bs,
        trace := trace w @
          [Output, EvLoadConfig, Output,
           EvPromptBool ''Do you want to override current config?'' True]\<rparr>)"
proof -
  have "preValidateConfig args w =
      (Some (args, Some (Error ''initialization cancelled'')),
       w\<lparr>tty_bools := bs,
         trace := trace w @
           [Output, EvLoadConfig, Output,
            EvPromptBool ''Do you want to override current config?'' True]\<rparr>)"
    using assms
    by (simp add: preValidateConfig_def LoadConfig_def PromptBoolWithConfig_def emit_def)
  then show ?thesis
    by (simp add: PreValidateFunc_def andThen_def)
qed

theorem C8_override_declined_witness:
  "PreValidateFunc sdk
     \<lparr>SecretKey = '''', Region = '''', Zone = '''', OrganizationID = '''', SendUsage = None\<rparr>
     (idle\<lparr>config_file := Some emptyConfig, tty_bools := [Inr False],
        tty_lines := [Inr ''11111111-2222-3333-4444-555555555555'']\<rparr>) =
     (Some (\<lparr>SecretKey = '''', Region = '''', Zone = '''', OrganizationID = '''',
             SendUsage = None\<rparr>,
            Some (Error ''initialization cancelled'')),
      idle\<lparr>config_file := Some emptyConfig,
        tty_lines := [Inr ''11111111-2222-3333-4444-555555555555''],
        trace := [Output, EvLoadConfig, Output,
                  EvPromptBool ''Do you want to override current config?'' True]\<rparr>)"
  using C8_override_declined [of
      "idle\<lparr>config_file := Some emptyConfig, tty_bools := [Inr False],
         tty_lines := [Inr ''11111111-2222-3333-4444-555555555555'']\<rparr>"
      emptyConfig "[]" sdk
      "\<lparr>SecretKey = '''', Region = '''', Zone = '''', OrganizationID = '''',
        SendUsage = None\<rparr>"]
  by (simp add: idle_def)

text \<open>
  Claim C9. No region is given. The zone is the one given or, when none is given, the one
  entered at the prompt and parsed. The region that \<open>PreValidateFunc\<close> leaves in the
  arguments is the one that \<open>Zone.Region()\<close> gives for this zone; with the mapping of the
  spec, the zone fr-par-1 gets the region fr-par. When \<open>Zone.Region()\<close> fails,
  \<open>PreValidateFunc\<close> returns its error at once: the organization is not looked up,
  nothing more is asked, and no region is put in place of the missing one.
\<close>

theorem C9_region_of_zone:
  assumes "SecretKey args \<noteq> ''''" and "Region args = ''''" and "config_file w = None"
    and "Zone args \<noteq> '''' \<and> zone = Zone args \<and>
           w1 = w\<lparr>trace := trace w @ [Output, EvLoadConfig]\<rparr> \<or>
         Zone args = '''' \<and> tty_lines w = Inr entered # ls \<and> entered \<noteq> '''' \<and>
           IsZone K entered \<and> ParseZone K entered = (zone, None) \<and>
           w1 = w\<lparr>tty_lines := ls,
                  trace := trace w @
                    [Output, EvLoadConfig,
                     EvPromptStringWithConfig ''Select a zone'' ''fr-par-1'']\<rparr>"
  shows "(\<forall>r e. ZoneRegion K zone = (r, Some e) \<longrightarrow>
            PreValidateFunc K args w =
              (Some (args\<lparr>Zone := zone, Region := r\<rparr>, Some e), w1)) \<and>
         (\<forall>r. ZoneRegion K zone = (r, None) \<longrightarrow>
            OrganizationID args \<noteq> '''' \<longrightarrow> SendUsage args \<noteq> None \<longrightarrow>
            PreValidateFunc K args w =
              (Some (args\<lparr>Zone := zone, Region := r\<rparr>, None), w1)) \<and>
         (zone = ''fr-par-1'' \<longrightarrow> ZoneRegion K = known_region \<longrightarrow>
            OrganizationID args \<noteq> '''' \<longrightarrow> SendUsage args \<noteq> None \<longrightarrow>
            PreValidateFunc K args w =
              (Some (args\<lparr>Zone := ''fr-par-1'', Region := ''fr-par''\<rparr>, None), w1))"
proof -
  have resolved: "andThen (andThen (preValidateConfig args w) (preValidateSecretKey K))
      (preValidateZone K) = (Some (args\<lparr>Zone := zone\<rparr>, None), w1)"
    using assms
    by (auto simp add: andThen_def preValidateConfig_def LoadConfig_def
        preValidateSecretKey_def preValidateZone_def PromptStringWithConfig_def emit_def)
  have failing: "PreValidateFunc K args w =
      (Some (args\<lparr>Zone := zone, Region := r\<rparr>, Some e), w1)"
    if "ZoneRegion K zone = (r, Some e)" for r e
    using that assms(2) unfolding PreValidateFunc_def resolved
    by (simp add: andThen_def preValidateRegion_def)
  have derived: "PreValidateFunc K args w =
      (Some (args\<lparr>Zone := zone, Region := r\<rparr>, None), w1)"
    if "ZoneRegion K zone = (r, None)" "OrganizationID args \<noteq> ''''"
      "SendUsage args \<noteq> None" for r
    using that assms(2) unfolding PreValidateFunc_def resolved
    by (auto simp add: andThen_def preValidateRegion_def preValidateOrganizationID_def
        preValidateSendUsage_def)
  have "known_region ''fr-par-1'' = (''fr-par'', None)"
    by (simp add: known_region_def zone_regions_def)
  with derived [of "''fr-par''"] failing derived show ?thesis
    by auto
qed

theorem C9_region_of_zone_witness:
  "PreValidateFunc sdk
     \<lparr>SecretKey = ''11111111-2222-3333-4444-555555555555'', Region = '''',
      Zone = ''fr-par-1'', OrganizationID = ''aaaaaaaa-bbbb-cccc-dddd-eeeeeeeeeeee'',
      SendUsage = Some False\<rparr> idle =
     (Some (\<lparr>SecretKey = ''11111111-2222-3333-4444-555555555555'', Region = ''fr-par'',
             Zone = ''fr-par-1'', OrganizationID = ''aaaaaaaa-bbbb-cccc-dddd-eeeeeeeeeeee'',
             SendUsage = Some False\<rparr>, None),
      idle\<lparr>trace := [Output, EvLoadConfig]\<rparr>) \<and>
   PreValidateFunc sdk
     \<lparr>SecretKey = ''11111111-2222-3333-4444-555555555555'', Region = '''',
      Zone = ''xx-yyy-1'', OrganizationID = '''', SendUsage = None\<rparr>
     (idle\<lparr>organizations_responses := [Inr [''aaaaaaaa-bbbb-cccc-dddd-eeeeeeeeeeee'']]\<rparr>) =
     (Some (\<lparr>SecretKey = ''11111111-2222-3333-4444-555555555555'', Region = '''',
             Zone = ''xx-yyy-1'', OrganizationID = '''', SendUsage = None\<rparr>,
            Some (Error ''unknown zone'')),
      idle\<lparr>organizations_responses := [Inr [''aaaaaaaa-bbbb-cccc-dddd-eeeeeeeeeeee'']],
        trace := [Output, EvLoadConfig]\<rparr>) \<and>
   PreValidateFunc sdk
     \<lparr>SecretKey = ''11111111-2222-3333-4444-555555555555'', Region = '''',
      Zone = '''', OrganizationID = ''aaaaaaaa-bbbb-cccc-dddd-eeeeeeeeeeee'',
      SendUsage = Some False\<rparr>
     (idle\<lparr>tty_lines := [Inr ''fr-par-1'']\<rparr>) =
     (Some (\<lparr>SecretKey = ''11111111-2222-3333-4444-555555555555'', Region = ''fr-par'',
             Zone = ''fr-par-1'', OrganizationID = ''aaaaaaaa-bbbb-cccc-dddd-eeeeeeeeeeee'',
             SendUsage = Some False\<rparr>, None),
      idle\<lparr>trace :=
        [Output, EvLoadConfig, EvPromptStringWithConfig ''Select a zone'' ''fr-par-1'']\<rparr>)"
proof -
  have unknown: "known_region ''xx-yyy-1'' = ('''', Some (Error ''unknown zone''))"
    by (simp add: known_region_def zone_regions_def)
  show ?thesis
    using sdk_zone_region sdk_zone unknown
      C9_region_of_zone [where K = sdk and w = idle and zone = "''fr-par-1''"
        and ?w1.0 = "idle\<lparr>trace := [Output, EvLoadConfig]\<rparr>"
        and entered = "''''" and ls = "[]"
        and args = "\<lparr>SecretKey = ''11111111-2222-3333-4444-555555555555'', Region = '''',
          Zone = ''fr-par-1'', OrganizationID = ''aaaaaaaa-bbbb-cccc-dddd-eeeeeeeeeeee'',
          SendUsage = Some False\<rparr>"]
      C9_region_of_zone [where K = sdk and zone = "''xx-yyy-1''"
        and w = "idle\<lparr>organizations_responses :=
                   [Inr [''aaaaaaaa-bbbb-cccc-dddd-eeeeeeeeeeee'']]\<rparr>"
        and ?w1.0 = "idle\<lparr>organizations_responses :=
                       [Inr [''aaaaaaaa-bbbb-cccc-dddd-eeeeeeeeeeee'']],
                     trace := [Output, EvLoadConfig]\<rparr>"
        and entered = "''''" and ls = "[]"
        and args = "\<lparr>SecretKey = ''11111111-2222-3333-4444-555555555555'', Region = '''',
          Zone = ''xx-yyy-1'', OrganizationID = '''', SendUsage = None\<rparr>"]
      C9_region_of_zone [where K = sdk and zone = "''fr-par-1''"
        and w = "idle\<lparr>tty_lines := [Inr ''fr-par-1'']\<rparr>"
        and ?w1.0 = "idle\<lparr>trace :=
          [Output, EvLoadConfig, EvPromptStringWithConfig ''Select a zone'' ''fr-par-1'']\<rparr>"
        and entered = "''fr-par-1''" and ls = "[]"
        and args = "\<lparr>SecretKey = ''11111111-2222-3333-4444-555555555555'', Region = '''',
          Zone = '''', OrganizationID = ''aaaaaaaa-bbbb-cccc-dddd-eeeeeeeeeeee'',
          SendUsage = Some False\<rparr>"]
    by (simp add: idle_def)
qed

text \<open>
  Claim C3, where the code departs from it. No zone is given and the prompt for the zone
  returns an error \<open>e\<close>. Which error it was makes no difference to \<open>PreValidateFunc\<close>:
  the error is overwritten unread, the empty zone that came with it is given to
  \<open>scw.ParseZone\<close>, and when that fails it is the error of \<open>scw.ParseZone\<close> that
  \<open>PreValidateFunc\<close> returns, not \<open>e\<close>.
\<close>

theorem C3_zone_prompt_error_dropped:
  assumes "SecretKey args \<noteq> ''''" and "Zone args = ''''" and "config_file w = None"
  shows "PreValidateFunc K args (w\<lparr>tty_lines := Inl e # ls\<rparr>) =
           PreValidateFunc K args (w\<lparr>tty_lines := Inl e2 # ls\<rparr>) \<and>
         (\<forall>z e'. ParseZone K '''' = (z, Some e') \<longrightarrow>
            PreValidateFunc K args (w\<lparr>tty_lines := Inl e # ls\<rparr>) =
              (Some (args\<lparr>Zone := z\<rparr>, Some e'),
               w\<lparr>tty_lines := ls,
                 trace := trace w @
                   [Output, EvLoadConfig,
                    EvPromptStringWithConfig ''Select a zone'' ''fr-par-1'']\<rparr>))"
proof -
  let ?w1 = "w\<lparr>tty_lines := ls,
       trace := trace w @
         [Output, EvLoadConfig, EvPromptStringWithConfig ''Select a zone'' ''fr-par-1'']\<rparr>"
  have zone: "andThen (andThen (preValidateConfig args (w\<lparr>tty_lines := Inl x # ls\<rparr>))
        (preValidateSecretKey K)) (preValidateZone K) =
      (case ParseZone K '''' of (z, err) \<Rightarrow> (Some (args\<lparr>Zone := z\<rparr>, err), ?w1))" for x
    using assms
    by (simp add: andThen_def preValidateConfig_def LoadConfig_def preValidateSecretKey_def
        preValidateZone_def PromptStringWithConfig_def emit_def)
  have "PreValidateFunc K args (w\<lparr>tty_lines := Inl e # ls\<rparr>) =
      PreValidateFunc K args (w\<lparr>tty_lines := Inl e2 # ls\<rparr>)"
    unfolding PreValidateFunc_def zone ..
  moreover have "PreValidateFunc K args (w\<lparr>tty_lines := Inl e # ls\<rparr>) =
      (Some (args\<lparr>Zone := z\<rparr>, Some e'), ?w1)"
    if "ParseZone K '''' = (z, Some e')" for z e'
    unfolding PreValidateFunc_def zone by (simp add: that andThen_def)
  ultimately show ?thesis
    by blast
qed

theorem C3_zone_prompt_error_dropped_witness:
  "ParseZone sdk '''' = ('''', Some (Error ''bad zone format'')) \<and>
   PreValidateFunc sdk
     \<lparr>SecretKey = ''11111111-2222-3333-4444-555555555555'', Region = '''', Zone = '''',
      OrganizationID = '''', SendUsage = None\<rparr>
     (idle\<lparr>tty_lines := [Inl (Error ''EOF'')]\<rparr>) =
     (Some (\<lparr>SecretKey = ''11111111-2222-3333-4444-555555555555'', Region = '''',
             Zone = '''', OrganizationID = '''', SendUsage = None\<rparr>,
            Some (Error ''bad zone format'')),
      idle\<lparr>trace :=
        [Output, EvLoadConfig, EvPromptStringWithConfig ''Select a zone'' ''fr-par-1'']\<rparr>)"
  (is "_ \<and> PreValidateFunc sdk ?args _ = _")
proof -
  have key: "SecretKey ?args \<noteq> ''''" and zone: "Zone ?args = ''''"
    by simp_all
  have new: "config_file idle = None"
    by (simp add: idle_def)
  from C3_zone_prompt_error_dropped [OF key zone new, of sdk "Error ''EOF''" "[]"] sdk_no_zone
  have "PreValidateFunc sdk ?args (idle\<lparr>tty_lines := [Inl (Error ''EOF'')]\<rparr>) =
      (Some (?args\<lparr>Zone := ''''\<rparr>, Some (Error ''bad zone format'')),
       idle\<lparr>tty_lines := [],
         trace := trace idle @
           [Output, EvLoadConfig, EvPromptStringWithConfig ''Select a zone'' ''fr-par-1'']\<rparr>)"
    by blast
  with sdk_no_zone show ?thesis
    by (simp add: idle_def)
qed

subsection \<open>Run\<close>

text \<open>
  Claim C4. The first save succeeds and the fetch of the access key fails with \<open>e\<close>.
  \<open>Run\<close> saves the config with the four fields of the profile, and only then asks for
  the access key; it returns \<open>e\<close> in a \<open>CliError\<close> with the detail string. There is one
  save and no second one (its outcome is still to come), and the config file holds what
  the first save wrote.
\<close>

theorem C4_access_key_failure_keeps_save:
  assumes "save_responses w = None # srs"
    and "access_key_responses w = Inl e # ks"
    and "c0 = (let loaded = (case config_file w of None \<Rightarrow> emptyConfig | Some c \<Rightarrow> c)
               in case SendUsage args of
                    Some b \<Rightarrow> loaded\<lparr>ConfigSendUsage := b\<rparr>
                  | None \<Rightarrow> loaded)"
    and "ActiveProfileError K c0 = None"
    and "c1 = c0\<lparr>ConfigProfile := (ConfigProfile c0)
                 \<lparr>ProfileSecretKey := Some (SecretKey args),
                  DefaultZone := Some (Zone args),
                  DefaultRegion := Some (Region args),
                  DefaultOrganizationID := Some (OrganizationID args)\<rparr>\<rparr>"
  shows "Run K args w =
     (Some (EmptyString,
        Some (CliError e ''Failed to retrieve Access Key for the given Secret Key.'')),
      w\<lparr>save_responses := srs, access_key_responses := ks, config_file := Some c1,
        trace := trace w @ [EvLoadConfig] @
          (if config_file w = None then [Output] else []) @
          [EvSave c1, EvGetAccessKey (SecretKey args), Output]\<rparr>)"
  using assms
  by (cases "config_file w"; cases "SendUsage args")
     (simp_all add: Run_def LoadConfig_def GetActiveProfile_def Save_def GetAccessKey_def
      emit_def Let_def)

theorem C4_access_key_failure_keeps_save_witness:
  "Run sdk
     \<lparr>SecretKey = ''11111111-2222-3333-4444-555555555555'', Region = ''fr-par'',
      Zone = ''fr-par-1'', OrganizationID = ''aaaaaaaa-bbbb-cccc-dddd-eeeeeeeeeeee'',
      SendUsage = Some True\<rparr>
     (idle\<lparr>save_responses := [None, None],
        access_key_responses := [Inl (Error ''unauthorized'')]\<rparr>) =
     (Some (EmptyString,
        Some (CliError (Error ''unauthorized'')
          ''Failed to retrieve Access Key for the given Secret Key.'')),
      idle\<lparr>save_responses := [None],
        config_file := Some
          \<lparr>ConfigSendUsage = True,
           ConfigProfile =
             \<lparr>AccessKey = None,
              ProfileSecretKey = Some ''11111111-2222-3333-4444-555555555555'',
              DefaultOrganizationID = Some ''aaaaaaaa-bbbb-cccc-dddd-eeeeeeeeeeee'',
              DefaultRegion = Some ''fr-par'', DefaultZone = Some ''fr-par-1''\<rparr>\<rparr>,
        trace :=
          [EvLoadConfig, Output,
           EvSave
             \<lparr>ConfigSendUsage = True,
              ConfigProfile =
                \<lparr>AccessKey = None,
                 ProfileSecretKey = Some ''11111111-2222-3333-4444-555555555555'',
                 DefaultOrganizationID = Some ''aaaaaaaa-bbbb-cccc-dddd-eeeeeeeeeeee'',
                 DefaultRegion = Some ''fr-par'', DefaultZone = Some ''fr-par-1''\<rparr>\<rparr>,
           EvGetAccessKey ''11111111-2222-3333-4444-555555555555'', Output]\<rparr>)"
  using C4_access_key_failure_keeps_save [where K = sdk and e = "Error ''unauthorized''"
      and srs = "[None]" and ks = "[]"
      and w = "idle\<lparr>save_responses := [None, None],
                 access_key_responses := [Inl (Error ''unauthorized'')]\<rparr>"
      and args = "\<lparr>SecretKey = ''11111111-2222-3333-4444-555555555555'', Region = ''fr-par'',
        Zone = ''fr-par-1'', OrganizationID = ''aaaaaaaa-bbbb-cccc-dddd-eeeeeeeeeeee'',
        SendUsage = Some True\<rparr>"
      and ?c0.0 = "emptyConfig\<lparr>ConfigSendUsage := True\<rparr>"
      and ?c1.0 = "\<lparr>ConfigSendUsage = True,
           ConfigProfile =
             \<lparr>AccessKey = None,
              ProfileSecretKey = Some ''11111111-2222-3333-4444-555555555555'',
              DefaultOrganizationID = Some ''aaaaaaaa-bbbb-cccc-dddd-eeeeeeeeeeee'',
              DefaultRegion = Some ''fr-par'', DefaultZone = Some ''fr-par-1''\<rparr>\<rparr>"]
  by (simp add: idle_def sdk_def emptyConfig_def emptyProfile_def)

end
